theory Spec2Isabelle
  imports Main "HOL-Library.Multiset"
begin

section \<open>Data model (types.ts)\<close>

text \<open>
  \<^verbatim>\<open>enum TaskCategory { RESEARCH, ADMIN, PERSONAL, OTHER }\<close> is a string enum; its
  run-time values are the four labels, kept here as UTF-8 bytes.
\<close>

datatype TaskCategory = RESEARCH | ADMIN | PERSONAL | OTHER

definition label_RESEARCH :: string where
  "label_RESEARCH = [CHR 0xE7, CHR 0xA0, CHR 0x94, CHR 0xE7, CHR 0x99, CHR 0xBC]"

definition label_ADMIN :: string where
  "label_ADMIN = [CHR 0xE8, CHR 0xA1, CHR 0x8C, CHR 0xE6, CHR 0x94, CHR 0xBF]"

definition label_PERSONAL :: string where
  "label_PERSONAL = [CHR 0xE5, CHR 0x80, CHR 0x8B, CHR 0xE4, CHR 0xBA, CHR 0xBA]"

definition label_OTHER :: string where
  "label_OTHER = [CHR 0xE5, CHR 0x85, CHR 0xB6, CHR 0xE4, CHR 0xBB, CHR 0x96]"

fun categoryValue :: "TaskCategory \<Rightarrow> string" where
  "categoryValue RESEARCH = label_RESEARCH"
| "categoryValue ADMIN = label_ADMIN"
| "categoryValue PERSONAL = label_PERSONAL"
| "categoryValue OTHER = label_OTHER"

text \<open>
  \<^verbatim>\<open>interface Task\<close>. The field \<^verbatim>\<open>id\<close> is called \<open>id_t\<close> (\<open>id\<close> is the identity
  function of HOL). \<^verbatim>\<open>remindTime\<close> stays the ISO string the source stores; the
  numbers of \<^verbatim>\<open>repeatDays\<close> (weekday indices) and \<^verbatim>\<open>createdAt\<close> (\<^verbatim>\<open>Date.now()\<close>) are
  integers.
\<close>

record Task =
  id_t :: string
  content :: string
  remindTime :: string
  repeatDays :: "int list"
  category :: TaskCategory
  isActive :: bool
  isCompleted :: bool
  createdAt :: int

section \<open>Task store (App.tsx)\<close>

text \<open>
  \<^verbatim>\<open>prev.map(t => t.id === id ? { ...t, isCompleted: !t.isCompleted } : t)\<close>
\<close>

definition toggleTask :: "string \<Rightarrow> Task list \<Rightarrow> Task list" where
  "toggleTask i prev =
     map (\<lambda>t. if id_t t = i then t\<lparr>isCompleted := \<not> isCompleted t\<rparr> else t) prev"

text \<open>\<^verbatim>\<open>prev.filter(t => t.id !== id)\<close>\<close>

definition deleteTask :: "string \<Rightarrow> Task list \<Rightarrow> Task list" where
  "deleteTask i prev = filter (\<lambda>t. id_t t \<noteq> i) prev"

section \<open>Platform: dates and number formatting\<close>

text \<open>
  A \<^verbatim>\<open>Date\<close> is its time value, the milliseconds since the epoch (an integer).
  \<^verbatim>\<open>new Date(s)\<close> for a string \<open>s\<close> is the platform's parser; the model takes it as a
  parameter \<open>parseDate\<close>, with \<open>None\<close> for an Invalid Date (time value NaN). The local
  time zone is the parameter \<open>tza\<close>, the offset in milliseconds that holds at a time
  value. The getters are those of ECMA-262: \<open>LocalTime(t) = t + LocalTZA(t)\<close>,
  \<open>HourFromTime(t) = floor(t / msPerHour) mod 24\<close>,
  \<open>MinFromTime(t) = floor(t / msPerMinute) mod 60\<close>,
  \<open>WeekDay(t) = (Day(t) + 4) mod 7\<close> (0 is Sunday).
\<close>

definition getHours :: "(int \<Rightarrow> int) \<Rightarrow> int \<Rightarrow> int" where
  "getHours tza t = ((t + tza t) div 3600000) mod 24"

definition getMinutes :: "(int \<Rightarrow> int) \<Rightarrow> int \<Rightarrow> int" where
  "getMinutes tza t = ((t + tza t) div 60000) mod 60"

definition getDay :: "(int \<Rightarrow> int) \<Rightarrow> int \<Rightarrow> int" where
  "getDay tza t = ((t + tza t) div 86400000 + 4) mod 7"

text \<open>
  The decimal rendering of an integer inside a template literal, as
  \<^verbatim>\<open>`${taskTime.getTime()}`\<close> needs it (time values are far below \<open>10^21\<close>, so the
  rendering has no exponent).
\<close>

definition digitChar :: "nat \<Rightarrow> char" where
  "digitChar d = ''0123456789'' ! d"

fun showNat :: "nat \<Rightarrow> string" where
  "showNat n = (if n < 10 then [digitChar n] else showNat (n div 10) @ [digitChar (n mod 10)])"

declare showNat.simps [simp del]

definition showInt :: "int \<Rightarrow> string" where
  "showInt i = (if i < 0 then CHR ''-'' # showNat (nat (- i)) else showNat (nat i))"

section \<open>Reminder monitor (hooks/useTaskScheduler.ts)\<close>

text \<open>
  The options of \<^verbatim>\<open>new Notification(title, { body, icon })\<close>. The title is
  \<^verbatim>\<open>"AI Smart Assistant "\<close> followed by a two-character word (six UTF-8 bytes).
\<close>

record Notification =
  title :: string
  body :: string
  icon :: string

definition notificationTitle :: string where
  "notificationTitle =
     ''AI Smart Assistant '' @ [CHR 0xE6, CHR 0x8F, CHR 0x90, CHR 0xE9, CHR 0x86, CHR 0x92]"

definition notificationIcon :: string where
  "notificationIcon = ''https://picsum.photos/64/64''"

text \<open>
  The state the hook keeps and the effect it has: \<open>notifiedTasks\<close> is the
  \<^verbatim>\<open>useRef<Set<string>>\<close>, \<open>shown\<close> the notifications constructed so far, in order.
\<close>

record Scheduler =
  notifiedTasks :: "string set"
  shown :: "Notification list"

definition notificationKey :: "string \<Rightarrow> int \<Rightarrow> string" where
  "notificationKey i taskTime = i @ ''-'' @ showInt taskTime"

text \<open>
  The body of \<^verbatim>\<open>tasks.forEach(task => ...)\<close> in \<^verbatim>\<open>checkTasks\<close>. \<open>granted\<close> is
  \<^verbatim>\<open>'Notification' in window && Notification.permission === 'granted'\<close> at the time of
  the check. With an Invalid Date, \<^verbatim>\<open>timeDiff\<close> is NaN and both comparisons are false.
\<close>

definition checkTask ::
  "(string \<Rightarrow> int option) \<Rightarrow> (int \<Rightarrow> int) \<Rightarrow> int \<Rightarrow> bool \<Rightarrow> Task \<Rightarrow> Scheduler \<Rightarrow> Scheduler" where
  "checkTask parseDate tza now granted task st =
     (if \<not> isActive task \<or> isCompleted task then st
      else case parseDate (remindTime task) of
        None \<Rightarrow> st
      | Some taskTime \<Rightarrow>
          let timeDiff = taskTime - now in
          if timeDiff \<le> 0 \<and> timeDiff > - 60000 then
            let key = notificationKey (id_t task) taskTime in
            if key \<notin> notifiedTasks st then
              let currentDay = getDay tza now;
                  isRecurringToday =
                    (length (repeatDays task) > 0 \<and> currentDay \<in> set (repeatDays task));
                  isOneTime = (length (repeatDays task) = 0);
                  shouldNotify =
                    (if isOneTime then True
                     else if isRecurringToday then
                       (if getHours tza taskTime = getHours tza now
                           \<and> getMinutes tza taskTime = getMinutes tza now
                        then True else False)
                     else False)
              in if shouldNotify then
                   st\<lparr>shown :=
                        (if granted
                         then shown st @ [\<lparr>title = notificationTitle, body = content task,
                                icon = notificationIcon\<rparr>]
                         else shown st),
                      notifiedTasks := insert key (notifiedTasks st)\<rparr>
                 else st
            else st
          else st)"

text \<open>One run of \<^verbatim>\<open>checkTasks\<close>: the \<^verbatim>\<open>forEach\<close> over the task list, at time \<open>now\<close>.\<close>

definition checkTasks ::
  "(string \<Rightarrow> int option) \<Rightarrow> (int \<Rightarrow> int) \<Rightarrow> int \<Rightarrow> bool \<Rightarrow> Task list \<Rightarrow> Scheduler \<Rightarrow> Scheduler" where
  "checkTasks parseDate tza now granted tasks st =
     fold (checkTask parseDate tza now granted) tasks st"

text \<open>
  The timer: \<^verbatim>\<open>setInterval(checkTasks, 1000)\<close> runs \<^verbatim>\<open>checkTasks\<close> again and again, each
  run with its own clock reading, permission and current task list (the effect is set up
  anew when \<^verbatim>\<open>tasks\<close> changes; the \<^verbatim>\<open>useRef\<close> set lives on). A run of the timer is the
  list of these triples, oldest first.
\<close>

definition runChecks ::
  "(string \<Rightarrow> int option) \<Rightarrow> (int \<Rightarrow> int) \<Rightarrow> (int \<times> bool \<times> Task list) list \<Rightarrow> Scheduler \<Rightarrow> Scheduler" where
  "runChecks parseDate tza polls st =
     fold (\<lambda>(now, granted, tasks). checkTasks parseDate tza now granted tasks) polls st"

text \<open>The state when the hook mounts: nothing notified, nothing shown.\<close>

definition initialScheduler :: Scheduler where
  "initialScheduler = \<lparr>notifiedTasks = {}, shown = []\<rparr>"

text \<open>
  Names for stating the properties: the notification constructed for a task, the
  60-second window \<^verbatim>\<open>timeDiff <= 0 && timeDiff > -60000\<close>, and the test a recurring task
  has to pass (weekday listed, same hour and minute).
\<close>

definition notificationOf :: "Task \<Rightarrow> Notification" where
  "notificationOf task =
     \<lparr>title = notificationTitle, body = content task, icon = notificationIcon\<rparr>"

definition inWindow :: "int \<Rightarrow> int \<Rightarrow> bool" where
  "inWindow taskTime now \<longleftrightarrow> taskTime - now \<le> 0 \<and> taskTime - now > - 60000"

definition recurringMatch :: "(int \<Rightarrow> int) \<Rightarrow> Task \<Rightarrow> int \<Rightarrow> int \<Rightarrow> bool" where
  "recurringMatch tza task taskTime now \<longleftrightarrow>
     getDay tza now \<in> set (repeatDays task)
     \<and> getHours tza taskTime = getHours tza now
     \<and> getMinutes tza taskTime = getMinutes tza now"




section \<open>AI gateway (services/gemini.ts)\<close>

text \<open>
  What \<^verbatim>\<open>JSON.parse\<close> returns: a JSON value. Numbers are integers here; an object is
  the list of its members in the order of the text.
\<close>

datatype json = JNull | JBool bool | JNum int | JStr string | JArr "json list"
  | JObj "(string \<times> json) list"

text \<open>What a call can throw: the request fails, \<^verbatim>\<open>JSON.parse\<close> fails, or a property of
  \<^verbatim>\<open>null\<close> is read.\<close>

datatype js_error = ApiError string | SyntaxError | TypeError

text \<open>
  The argument and the result of \<^verbatim>\<open>ai.models.generateContent\<close>. The response's
  \<^verbatim>\<open>text\<close> getter gives a string or \<^verbatim>\<open>undefined\<close>; the field is called
  \<open>response_text\<close> here, and the parameter \<^verbatim>\<open>content\<close> of \<^verbatim>\<open>categorizeTask\<close> is \<open>content'\<close>
  (\<open>content\<close> is a field of \<open>Task\<close>).
\<close>

datatype Schema = STRING_enum "string list" | OBJECT "(string \<times> Schema) list"

record GenerateContentConfig =
  responseMimeType :: string
  responseSchema :: Schema

record GenerateContentRequest =
  model :: string
  contents :: string
  config :: "GenerateContentConfig option"

record GenerateContentResponse =
  response_text :: "string option"

definition GEMINI_MODEL :: string where
  "GEMINI_MODEL = ''gemini-3-flash-preview''"

text \<open>The string literals of the module, as UTF-8 bytes.\<close>

definition emptySummary :: string where
  "emptySummary =
     [CHR 0xE7, CHR 0x9B, CHR 0xAE, CHR 0xE5, CHR 0x89, CHR 0x8D] @
       [CHR 0xE6, CHR 0xB2, CHR 0x92, CHR 0xE6, CHR 0x9C, CHR 0x89] @
       [CHR 0xE5, CHR 0xBE, CHR 0x85, CHR 0xE8, CHR 0xBE, CHR 0xA6] @
       [CHR 0xE4, CHR 0xBA, CHR 0x8B, CHR 0xE9, CHR 0xA0, CHR 0x85] @
       [CHR 0xE3, CHR 0x80, CHR 0x82, CHR 0xE4, CHR 0xBA, CHR 0xAB] @
       [CHR 0xE5, CHR 0x8F, CHR 0x97, CHR 0xE9, CHR 0x80, CHR 0x99] @
       [CHR 0xE7, CHR 0xBE, CHR 0x8E, CHR 0xE5, CHR 0xA5, CHR 0xBD] @
       [CHR 0xE7, CHR 0x9A, CHR 0x84, CHR 0xE4, CHR 0xB8, CHR 0x80] @
       [CHR 0xE5, CHR 0xA4, CHR 0xA9, CHR 0xE5, CHR 0x90, CHR 0xA7] @
       [CHR 0xEF, CHR 0xBC, CHR 0x81]"

definition noSummary :: string where
  "noSummary =
     [CHR 0xE7, CHR 0x84, CHR 0xA1, CHR 0xE6, CHR 0xB3, CHR 0x95] @
       [CHR 0xE7, CHR 0x94, CHR 0x9F, CHR 0xE6, CHR 0x88, CHR 0x90] @
       [CHR 0xE6, CHR 0x91, CHR 0x98, CHR 0xE8, CHR 0xA6, CHR 0x81] @
       [CHR 0xE3, CHR 0x80, CHR 0x82]"

definition connectionFailed :: string where
  "connectionFailed =
     [CHR 0xE9, CHR 0x80, CHR 0xA3, CHR 0xE7, CHR 0xB7, CHR 0x9A] @
       [CHR 0xE7, CHR 0x99, CHR 0xBC, CHR 0xE7, CHR 0x94, CHR 0x9F] @
       [CHR 0xE9, CHR 0x8C, CHR 0xAF, CHR 0xE8, CHR 0xAA, CHR 0xA4] @
       [CHR 0xEF, CHR 0xBC, CHR 0x8C, CHR 0xE7, CHR 0x84, CHR 0xA1] @
       [CHR 0xE6, CHR 0xB3, CHR 0x95, CHR 0xE7, CHR 0x94, CHR 0x9F] @
       [CHR 0xE6, CHR 0x88, CHR 0x90, CHR 0xE6, CHR 0x91, CHR 0x98] @
       [CHR 0xE8, CHR 0xA6, CHR 0x81, CHR 0xE3, CHR 0x80, CHR 0x82]"

definition summaryPromptHead :: string where
  "summaryPromptHead =
     [CHR 0x0A] @ ''    '' @ [CHR 0xE4, CHR 0xBD, CHR 0xA0, CHR 0xE6, CHR 0x98, CHR 0xAF] @
       [CHR 0xE4, CHR 0xB8, CHR 0x80, CHR 0xE4, CHR 0xBD, CHR 0x8D] @
       [CHR 0xE5, CHR 0xB0, CHR 0x88, CHR 0xE6, CHR 0xA5, CHR 0xAD] @
       [CHR 0xE7, CHR 0x9A, CHR 0x84, CHR 0xE8, CHR 0x81, CHR 0xB7] @
       [CHR 0xE5, CHR 0xA0, CHR 0xB4, CHR 0xE7, CHR 0xA7, CHR 0x98] @
       [CHR 0xE6, CHR 0x9B, CHR 0xB8, CHR 0xE3, CHR 0x80, CHR 0x82] @
       [CHR 0xE8, CHR 0xAB, CHR 0x8B, CHR 0xE9, CHR 0x96, CHR 0xB1] @
       [CHR 0xE8, CHR 0xAE, CHR 0x80, CHR 0xE4, CHR 0xBB, CHR 0xA5] @
       [CHR 0xE4, CHR 0xB8, CHR 0x8B, CHR 0xE4, CHR 0xBB, CHR 0x8A] @
       [CHR 0xE5, CHR 0xA4, CHR 0xA9, CHR 0xE7, CHR 0x9A, CHR 0x84] @
       [CHR 0xE5, CHR 0xBE, CHR 0x85, CHR 0xE8, CHR 0xBE, CHR 0xA6] @
       [CHR 0xE4, CHR 0xBA, CHR 0x8B, CHR 0xE9, CHR 0xA0, CHR 0x85] @
       [CHR 0xEF, CHR 0xBC, CHR 0x8C, CHR 0xE4, CHR 0xB8, CHR 0xA6] @
       [CHR 0xE4, CHR 0xBB, CHR 0xA5, CHR 0xE7, CHR 0xB9, CHR 0x81] @
       [CHR 0xE9, CHR 0xAB, CHR 0x94, CHR 0xE4, CHR 0xB8, CHR 0xAD] @
       [CHR 0xE6, CHR 0x96, CHR 0x87, CHR 0xE6, CHR 0x92, CHR 0xB0] @
       [CHR 0xE5, CHR 0xAF, CHR 0xAB, CHR 0xE4, CHR 0xB8, CHR 0x80] @
       [CHR 0xE6, CHR 0xAE, CHR 0xB5] @ '' 100 '' @
       [CHR 0xE5, CHR 0xAD, CHR 0x97, CHR 0xE4, CHR 0xBB, CHR 0xA5] @
       [CHR 0xE5, CHR 0x85, CHR 0xA7, CHR 0xE7, CHR 0x9A, CHR 0x84] @
       [CHR 0xE3, CHR 0x80, CHR 0x8C, CHR 0xE4, CHR 0xBB, CHR 0x8A] @
       [CHR 0xE6, CHR 0x97, CHR 0xA5, CHR 0xE9, CHR 0x87, CHR 0x8D] @
       [CHR 0xE9, CHR 0xBB, CHR 0x9E, CHR 0xE6, CHR 0x91, CHR 0x98] @
       [CHR 0xE8, CHR 0xA6, CHR 0x81, CHR 0xE3, CHR 0x80, CHR 0x8D] @
       [CHR 0xE3, CHR 0x80, CHR 0x82, CHR 0x0A] @ ''    '' @
       [CHR 0xE8, CHR 0xAA, CHR 0x9E, CHR 0xE6, CHR 0xB0, CHR 0xA3] @
       [CHR 0xE8, CHR 0xA6, CHR 0x81, CHR 0xE5, CHR 0xB0, CHR 0x88] @
       [CHR 0xE6, CHR 0xA5, CHR 0xAD, CHR 0xE3, CHR 0x80, CHR 0x81] @
       [CHR 0xE6, CHR 0xBA, CHR 0xAB, CHR 0xE6, CHR 0x9F, CHR 0x94] @
       [CHR 0xE4, CHR 0xB8, CHR 0x94, CHR 0xE5, CHR 0x85, CHR 0x85] @
       [CHR 0xE6, CHR 0xBB, CHR 0xBF, CHR 0xE6, CHR 0xB4, CHR 0xBB] @
       [CHR 0xE5, CHR 0x8A, CHR 0x9B, CHR 0xE3, CHR 0x80, CHR 0x82] @ [CHR 0x0A] @ ''    '' @
       [CHR 0xE5, CHR 0x9C, CHR 0xA8, CHR 0xE6, CHR 0x91, CHR 0x98] @
       [CHR 0xE8, CHR 0xA6, CHR 0x81, CHR 0xE4, CHR 0xB9, CHR 0x8B] @
       [CHR 0xE5, CHR 0xBE, CHR 0x8C, CHR 0xEF, CHR 0xBC, CHR 0x8C] @
       [CHR 0xE8, CHR 0xAB, CHR 0x8B, CHR 0xE9, CHR 0x99, CHR 0x84] @
       [CHR 0xE4, CHR 0xB8, CHR 0x8A, CHR 0xE4, CHR 0xB8, CHR 0x80] @
       [CHR 0xE5, CHR 0x8F, CHR 0xA5, CHR 0xE7, CHR 0xB0, CHR 0xA1] @
       [CHR 0xE7, CHR 0x9F, CHR 0xAD, CHR 0xE7, CHR 0x9A, CHR 0x84] @
       [CHR 0xE8, CHR 0x81, CHR 0xB7, CHR 0xE5, CHR 0xA0, CHR 0xB4] @
       [CHR 0xE9, CHR 0xBC, CHR 0x93, CHR 0xE5, CHR 0x8B, CHR 0xB5] @
       [CHR 0xE8, CHR 0xAA, CHR 0x9E, CHR 0xE3, CHR 0x80, CHR 0x82] @ [CHR 0x0A, CHR 0x0A] @
       ''    '' @ [CHR 0xE5, CHR 0xBE, CHR 0x85, CHR 0xE8, CHR 0xBE, CHR 0xA6] @
       [CHR 0xE4, CHR 0xBA, CHR 0x8B, CHR 0xE9, CHR 0xA0, CHR 0x85] @
       [CHR 0xE6, CHR 0xB8, CHR 0x85, CHR 0xE5, CHR 0x96, CHR 0xAE] @
       [CHR 0xEF, CHR 0xBC, CHR 0x9A, CHR 0x0A] @ ''    ''"

definition summaryPromptTail :: string where
  "summaryPromptTail =
     [CHR 0x0A] @ ''  ''"

definition categoryPromptHead :: string where
  "categoryPromptHead =
     [CHR 0x0A] @ ''    '' @ [CHR 0xE8, CHR 0xAB, CHR 0x8B, CHR 0xE5, CHR 0xB0, CHR 0x87] @
       [CHR 0xE4, CHR 0xBB, CHR 0xA5, CHR 0xE4, CHR 0xB8, CHR 0x8B] @
       [CHR 0xE4, CHR 0xBB, CHR 0xBB, CHR 0xE5, CHR 0x8B, CHR 0x99] @
       [CHR 0xE6, CHR 0xAD, CHR 0xB8, CHR 0xE9, CHR 0xA1, CHR 0x9E] @
       [CHR 0xE7, CHR 0x82, CHR 0xBA, CHR 0xE5, CHR 0x85, CHR 0xB6] @
       [CHR 0xE4, CHR 0xB8, CHR 0xAD, CHR 0xE4, CHR 0xB8, CHR 0x80] @
       [CHR 0xE5, CHR 0x80, CHR 0x8B, CHR 0xE9, CHR 0xA1, CHR 0x9E] @
       [CHR 0xE5, CHR 0x88, CHR 0xA5, CHR 0xEF, CHR 0xBC, CHR 0x9A] @
       [CHR 0xE7, CHR 0xA0, CHR 0x94, CHR 0xE7, CHR 0x99, CHR 0xBC] @ '', '' @
       [CHR 0xE8, CHR 0xA1, CHR 0x8C, CHR 0xE6, CHR 0x94, CHR 0xBF] @ '', '' @
       [CHR 0xE5, CHR 0x80, CHR 0x8B, CHR 0xE4, CHR 0xBA, CHR 0xBA] @ '', '' @
       [CHR 0xE5, CHR 0x85, CHR 0xB6, CHR 0xE4, CHR 0xBB, CHR 0x96] @
       [CHR 0xE3, CHR 0x80, CHR 0x82, CHR 0x0A] @ ''    '' @
       [CHR 0xE4, CHR 0xBB, CHR 0xBB, CHR 0xE5, CHR 0x8B, CHR 0x99] @
       [CHR 0xE5, CHR 0x85, CHR 0xA7, CHR 0xE5, CHR 0xAE, CHR 0xB9] @
       [CHR 0xEF, CHR 0xBC, CHR 0x9A]"

definition categoryPromptTail :: string where
  "categoryPromptTail =
     [CHR 0x0A] @ ''    '' @ [CHR 0x0A] @ ''    '' @
       [CHR 0xE5, CHR 0x8F, CHR 0xAA, CHR 0xE9, CHR 0x9C, CHR 0x80] @
       [CHR 0xE5, CHR 0x9B, CHR 0x9E, CHR 0xE5, CHR 0x82, CHR 0xB3] @
       [CHR 0xE9, CHR 0xA1, CHR 0x9E, CHR 0xE5, CHR 0x88, CHR 0xA5] @
       [CHR 0xE5, CHR 0x90, CHR 0x8D, CHR 0xE7, CHR 0xA8, CHR 0xB1] @
       [CHR 0xEF, CHR 0xBC, CHR 0x8C, CHR 0xE4, CHR 0xB8, CHR 0x8D] @
       [CHR 0xE8, CHR 0xA6, CHR 0x81, CHR 0xE6, CHR 0x9C, CHR 0x89] @
       [CHR 0xE5, CHR 0x85, CHR 0xB6, CHR 0xE4, CHR 0xBB, CHR 0x96] @
       [CHR 0xE6, CHR 0x96, CHR 0x87, CHR 0xE5, CHR 0xAD, CHR 0x97] @
       [CHR 0xE3, CHR 0x80, CHR 0x82, CHR 0x0A] @ ''  ''"

text \<open>\<^verbatim>\<open>Array.prototype.join\<close> on strings.\<close>

fun join :: "string \<Rightarrow> string list \<Rightarrow> string" where
  "join sep [] = []"
| "join sep [x] = x"
| "join sep (x # y # ys) = x @ sep @ join sep (y # ys)"

text \<open>\<^verbatim>\<open>s || d\<close> for a string or \<^verbatim>\<open>undefined\<close>: the empty string is falsy.\<close>

definition orElse :: "string option \<Rightarrow> string \<Rightarrow> string" where
  "orElse s d = (case s of None \<Rightarrow> d | Some v \<Rightarrow> if v = [] then d else v)"

text \<open>
  \<^verbatim>\<open>getDailySummary\<close>. The platform's formatter
  \<^verbatim>\<open>new Date(s).toLocaleTimeString('zh-TW', ...)\<close> is the parameter \<open>toLocaleTimeString\<close>
  (it gives \<^verbatim>\<open>"Invalid Date"\<close> for an Invalid Date and does not throw), the API call the
  parameter \<open>generateContent\<close> (\<open>Inl\<close>: the promise is rejected). \<open>getDailySummary_try\<close>
  is the \<^verbatim>\<open>try\<close> block, in which an exception is an \<open>Inl\<close> that ends the block;
  \<open>getDailySummary\<close> adds the early return and the \<^verbatim>\<open>catch\<close>. The result is paired with
  the requests sent, in order; \<open>Inl\<close> would be an exception reaching the caller.
\<close>

definition taskDescriptions :: "(string \<Rightarrow> string) \<Rightarrow> Task list \<Rightarrow> string" where
  "taskDescriptions toLocaleTimeString tasks =
     join [CHR 0x0A]
       (map (\<lambda>t. ''- '' @ content t @ '' ('' @ toLocaleTimeString (remindTime t) @ '')'')
         (filter (\<lambda>t. \<not> isCompleted t) tasks))"

definition summaryRequest :: "(string \<Rightarrow> string) \<Rightarrow> Task list \<Rightarrow> GenerateContentRequest" where
  "summaryRequest toLocaleTimeString tasks =
     \<lparr>model = GEMINI_MODEL,
      contents = summaryPromptHead @ taskDescriptions toLocaleTimeString tasks @ summaryPromptTail,
      config = None\<rparr>"

definition getDailySummary_try ::
  "(GenerateContentRequest \<Rightarrow> js_error + GenerateContentResponse)
     \<Rightarrow> GenerateContentRequest \<Rightarrow> js_error + string" where
  "getDailySummary_try generateContent request =
     (case generateContent request of
        Inl thrown \<Rightarrow> Inl thrown
      | Inr response \<Rightarrow> Inr (orElse (response_text response) noSummary))"

definition getDailySummary ::
  "(GenerateContentRequest \<Rightarrow> js_error + GenerateContentResponse) \<Rightarrow> (string \<Rightarrow> string)
     \<Rightarrow> Task list \<Rightarrow> (js_error + string) \<times> GenerateContentRequest list" where
  "getDailySummary generateContent toLocaleTimeString tasks =
     (if length tasks = 0 then (Inr emptySummary, [])
      else
        let request = summaryRequest toLocaleTimeString tasks in
        (case getDailySummary_try generateContent request of
           Inr summary \<Rightarrow> Inr summary
         | Inl error \<Rightarrow> Inr connectionFailed,
         [request]))"

text \<open>
  \<^verbatim>\<open>categorizeTask\<close>, again as the \<^verbatim>\<open>try\<close> block and the function with its \<^verbatim>\<open>catch\<close>.
  \<^verbatim>\<open>JSON.parse\<close> is the parameter \<open>parse\<close> (\<open>Inl\<close>: it throws).
  \<open>getCategory\<close> is \<^verbatim>\<open>result.category\<close>: a TypeError on \<^verbatim>\<open>null\<close>, the member of an
  object (the last one of that name) or \<^verbatim>\<open>undefined\<close>, and \<^verbatim>\<open>undefined\<close> on a number,
  boolean, string or array.
\<close>

definition categoryRequest :: "string \<Rightarrow> GenerateContentRequest" where
  "categoryRequest content' =
     \<lparr>model = GEMINI_MODEL,
      contents = categoryPromptHead @ content' @ categoryPromptTail,
      config = Some \<lparr>responseMimeType = ''application/json'',
        responseSchema = OBJECT [(''category'',
          STRING_enum [label_RESEARCH, label_ADMIN, label_PERSONAL, label_OTHER])]\<rparr>\<rparr>"

fun getCategory :: "json \<Rightarrow> js_error + json option" where
  "getCategory JNull = Inl TypeError"
| "getCategory (JObj members) = Inr (map_of (rev members) ''category'')"
| "getCategory _ = Inr None"

definition categorizeTask_try ::
  "(GenerateContentRequest \<Rightarrow> js_error + GenerateContentResponse)
     \<Rightarrow> (string \<Rightarrow> js_error + json) \<Rightarrow> GenerateContentRequest
     \<Rightarrow> js_error + TaskCategory" where
  "categorizeTask_try generateContent parse request =
     (case generateContent request of
        Inl thrown \<Rightarrow> Inl thrown
      | Inr response \<Rightarrow>
          (case parse (orElse (response_text response) ''{}'') of
             Inl thrown \<Rightarrow> Inl thrown
           | Inr result \<Rightarrow>
               (case getCategory result of
                  Inl thrown \<Rightarrow> Inl thrown
                | Inr categoryStr \<Rightarrow>
                    Inr (if categoryStr = Some (JStr label_RESEARCH) then RESEARCH
                         else if categoryStr = Some (JStr label_ADMIN) then ADMIN
                         else if categoryStr = Some (JStr label_PERSONAL) then PERSONAL
                         else OTHER))))"

definition categorizeTask ::
  "(GenerateContentRequest \<Rightarrow> js_error + GenerateContentResponse)
     \<Rightarrow> (string \<Rightarrow> js_error + json) \<Rightarrow> string
     \<Rightarrow> (js_error + TaskCategory) \<times> GenerateContentRequest list" where
  "categorizeTask generateContent parse content' =
     (let request = categoryRequest content' in
      (case categorizeTask_try generateContent parse request of
         Inr c \<Rightarrow> Inr c
       | Inl error \<Rightarrow> Inr OTHER,
       [request]))"

section \<open>Platform: JSON text\<close>

text \<open>
  \<^verbatim>\<open>JSON.stringify(value)\<close> without indentation, after ECMA-262: no white space, members
  and elements joined by commas, strings quoted by \<open>quoteJSONString\<close> (the two-character
  escapes for backspace, tab, line feed, form feed, carriage return, the quote and the
  backslash; \<^verbatim>\<open>\u00xx\<close> with lowercase hexadecimal digits for the other characters below
  32; every other character as it is).
\<close>

definition hexDigit :: "nat \<Rightarrow> char" where
  "hexDigit d = ''0123456789abcdef'' ! d"

definition escapeChar :: "char \<Rightarrow> string" where
  "escapeChar c =
     (if c = CHR 0x08 then [CHR 0x5C, CHR ''b'']
      else if c = CHR 0x09 then [CHR 0x5C, CHR ''t'']
      else if c = CHR 0x0A then [CHR 0x5C, CHR ''n'']
      else if c = CHR 0x0C then [CHR 0x5C, CHR ''f'']
      else if c = CHR 0x0D then [CHR 0x5C, CHR ''r'']
      else if c = CHR 0x22 then [CHR 0x5C, CHR 0x22]
      else if c = CHR 0x5C then [CHR 0x5C, CHR 0x5C]
      else if (of_char c :: nat) < 32 then
        [CHR 0x5C, CHR ''u'', CHR ''0'', CHR ''0'',
         hexDigit ((of_char c :: nat) div 16), hexDigit ((of_char c :: nat) mod 16)]
      else [c])"

definition quoteJSONString :: "string \<Rightarrow> string" where
  "quoteJSONString s = CHR 0x22 # concat (map escapeChar s) @ [CHR 0x22]"

fun JSON_stringify :: "json \<Rightarrow> string" where
  "JSON_stringify JNull = ''null''"
| "JSON_stringify (JBool b) = (if b then ''true'' else ''false'')"
| "JSON_stringify (JNum n) = showInt n"
| "JSON_stringify (JStr s) = quoteJSONString s"
| "JSON_stringify (JArr elements) = ''['' @ join '','' (map JSON_stringify elements) @ '']''"
| "JSON_stringify (JObj members) =
     ''{'' @ join '','' (map (\<lambda>m. quoteJSONString (fst m) @ '':'' @ JSON_stringify (snd m)) members)
       @ ''}''"

text \<open>
  \<^verbatim>\<open>JSON.parse(text)\<close>: a recursive-descent parser of the JSON grammar, with the white
  space of the grammar between tokens. Two restrictions against the platform's parser,
  both leading to \<open>SyntaxError\<close> here: a number with a fraction or an exponent (numbers
  are integers in this model) and a \<^verbatim>\<open>\uXXXX\<close> escape of 128 or more (characters are
  bytes). The recursion on the nesting is by a fuel argument; \<open>JSON_parse\<close> starts it
  with two units for every character of the text, and each unit of fuel spent before a
  character is consumed is followed by at most one more.
\<close>

definition isWs :: "char \<Rightarrow> bool" where
  "isWs c \<longleftrightarrow> c = CHR 0x20 \<or> c = CHR 0x09 \<or> c = CHR 0x0A \<or> c = CHR 0x0D"

definition skipWs :: "string \<Rightarrow> string" where
  "skipWs s = dropWhile isWs s"

definition isDigit :: "char \<Rightarrow> bool" where
  "isDigit c \<longleftrightarrow> 48 \<le> (of_char c :: nat) \<and> (of_char c :: nat) \<le> 57"

definition digitVal :: "char \<Rightarrow> nat" where
  "digitVal c = of_char c - 48"

definition readNat :: "string \<Rightarrow> nat" where
  "readNat ds = foldl (\<lambda>acc c. 10 * acc + digitVal c) 0 ds"

definition hexVal :: "char \<Rightarrow> nat option" where
  "hexVal c =
     (let n = (of_char c :: nat)
      in if 48 \<le> n \<and> n \<le> 57 then Some (n - 48)
         else if 97 \<le> n \<and> n \<le> 102 then Some (n - 87)
         else if 65 \<le> n \<and> n \<le> 70 then Some (n - 55)
         else None)"

definition unhex4 :: "char \<Rightarrow> char \<Rightarrow> char \<Rightarrow> char \<Rightarrow> nat option" where
  "unhex4 a b c d =
     (case (hexVal a, hexVal b, hexVal c, hexVal d) of
        (Some x, Some y, Some z, Some w) \<Rightarrow> Some (((x * 16 + y) * 16 + z) * 16 + w)
      | _ \<Rightarrow> None)"

definition unescape :: "char \<Rightarrow> char option" where
  "unescape e =
     (if e = CHR 0x22 then Some (CHR 0x22)
      else if e = CHR 0x5C then Some (CHR 0x5C)
      else if e = CHR ''/'' then Some (CHR ''/'')
      else if e = CHR ''b'' then Some (CHR 0x08)
      else if e = CHR ''f'' then Some (CHR 0x0C)
      else if e = CHR ''n'' then Some (CHR 0x0A)
      else if e = CHR ''r'' then Some (CHR 0x0D)
      else if e = CHR ''t'' then Some (CHR 0x09)
      else None)"

text \<open>The characters of a string after the opening quote, up to the closing quote.\<close>

fun parseChars :: "string \<Rightarrow> (string \<times> string) option" where
  "parseChars [] = None"
| "parseChars (c # cs) =
     (if c = CHR 0x22 then Some ([], cs)
      else if c = CHR 0x5C then
        (case cs of
           [] \<Rightarrow> None
         | e # cs' \<Rightarrow>
             if e = CHR ''u'' then
               (case cs' of
                  h1 # h2 # h3 # h4 # cs'' \<Rightarrow>
                    (case unhex4 h1 h2 h3 h4 of
                       None \<Rightarrow> None
                     | Some n \<Rightarrow>
                         if n < 128 then
                           (case parseChars cs'' of
                              None \<Rightarrow> None
                            | Some (s, rest) \<Rightarrow> Some (char_of n # s, rest))
                         else None)
                | _ \<Rightarrow> None)
             else
               (case unescape e of
                  None \<Rightarrow> None
                | Some ch \<Rightarrow>
                    (case parseChars cs' of
                       None \<Rightarrow> None
                     | Some (s, rest) \<Rightarrow> Some (ch # s, rest))))
      else if (of_char c :: nat) < 32 then None
      else
        (case parseChars cs of
           None \<Rightarrow> None
         | Some (s, rest) \<Rightarrow> Some (c # s, rest)))"

definition parseNumber :: "string \<Rightarrow> (int \<times> string) option" where
  "parseNumber s =
     (let negative = (s \<noteq> [] \<and> hd s = CHR ''-'');
          s1 = (if negative then tl s else s);
          ds = takeWhile isDigit s1;
          rest = dropWhile isDigit s1
      in if ds = [] then None
         else if length ds > 1 \<and> hd ds = CHR ''0'' then None
         else if rest \<noteq> [] \<and> hd rest \<in> {CHR ''.'', CHR ''e'', CHR ''E''} then None
         else Some (if negative then - int (readNat ds) else int (readNat ds), rest))"

fun parseValue :: "nat \<Rightarrow> string \<Rightarrow> (json \<times> string) option"
  and parseElements :: "nat \<Rightarrow> string \<Rightarrow> (json list \<times> string) option"
  and parseMembers :: "nat \<Rightarrow> string \<Rightarrow> ((string \<times> json) list \<times> string) option" where
  "parseValue 0 s = None"
| "parseValue (Suc fuel) s =
     (case skipWs s of
        [] \<Rightarrow> None
      | c # cs \<Rightarrow>
          if c = CHR ''n'' then
            (if take 3 cs = ''ull'' then Some (JNull, drop 3 cs) else None)
          else if c = CHR ''t'' then
            (if take 3 cs = ''rue'' then Some (JBool True, drop 3 cs) else None)
          else if c = CHR ''f'' then
            (if take 4 cs = ''alse'' then Some (JBool False, drop 4 cs) else None)
          else if c = CHR 0x22 then
            (case parseChars cs of None \<Rightarrow> None | Some (str, rest) \<Rightarrow> Some (JStr str, rest))
          else if c = CHR ''['' then
            (case skipWs cs of
               [] \<Rightarrow> None
             | d # ds \<Rightarrow>
                 if d = CHR '']'' then Some (JArr [], ds)
                 else (case parseElements fuel cs of
                         None \<Rightarrow> None
                       | Some (elements, rest) \<Rightarrow> Some (JArr elements, rest)))
          else if c = CHR ''{'' then
            (case skipWs cs of
               [] \<Rightarrow> None
             | d # ds \<Rightarrow>
                 if d = CHR ''}'' then Some (JObj [], ds)
                 else (case parseMembers fuel cs of
                         None \<Rightarrow> None
                       | Some (members, rest) \<Rightarrow> Some (JObj members, rest)))
          else
            (case parseNumber (c # cs) of
               None \<Rightarrow> None
             | Some (n, rest) \<Rightarrow> Some (JNum n, rest)))"
| "parseElements 0 s = None"
| "parseElements (Suc fuel) s =
     (case parseValue fuel s of
        None \<Rightarrow> None
      | Some (v, rest) \<Rightarrow>
          (case skipWs rest of
             [] \<Rightarrow> None
           | d # ds \<Rightarrow>
               if d = CHR '','' then
                 (case parseElements fuel ds of
                    None \<Rightarrow> None
                  | Some (vs, rest') \<Rightarrow> Some (v # vs, rest'))
               else if d = CHR '']'' then Some ([v], ds)
               else None))"
| "parseMembers 0 s = None"
| "parseMembers (Suc fuel) s =
     (case skipWs s of
        [] \<Rightarrow> None
      | q # cs \<Rightarrow>
          if q = CHR 0x22 then
            (case parseChars cs of
               None \<Rightarrow> None
             | Some (k, rest) \<Rightarrow>
                 (case skipWs rest of
                    [] \<Rightarrow> None
                  | col # rest1 \<Rightarrow>
                      if col = CHR '':'' then
                        (case parseValue fuel rest1 of
                           None \<Rightarrow> None
                         | Some (v, rest2) \<Rightarrow>
                             (case skipWs rest2 of
                                [] \<Rightarrow> None
                              | d # ds \<Rightarrow>
                                  if d = CHR '','' then
                                    (case parseMembers fuel ds of
                                       None \<Rightarrow> None
                                     | Some (ms, rest3) \<Rightarrow> Some ((k, v) # ms, rest3))
                                  else if d = CHR ''}'' then Some ([(k, v)], ds)
                                  else None))
                      else None))
          else None)"

definition JSON_parse :: "string \<Rightarrow> js_error + json" where
  "JSON_parse s =
     (case parseValue (2 * length s + 2) s of
        None \<Rightarrow> Inl SyntaxError
      | Some (v, rest) \<Rightarrow> if skipWs rest = [] then Inr v else Inl SyntaxError)"

section \<open>Persistence (App.tsx)\<close>

definition STORAGE_KEY :: string where
  "STORAGE_KEY = ''ai_smart_assistant_tasks''"

text \<open>
  A task as the JSON value \<^verbatim>\<open>JSON.stringify\<close> sees: the object with the eight properties
  in the order of the object literal in \<^verbatim>\<open>handleAddTask\<close> (the spread in \<^verbatim>\<open>toggleTask\<close>
  keeps that order), the category as its run-time string.
\<close>

definition taskToJson :: "Task \<Rightarrow> json" where
  "taskToJson t =
     JObj [(''id'', JStr (id_t t)), (''content'', JStr (content t)),
           (''remindTime'', JStr (remindTime t)),
           (''repeatDays'', JArr (map JNum (repeatDays t))),
           (''category'', JStr (categoryValue (category t))),
           (''isActive'', JBool (isActive t)), (''isCompleted'', JBool (isCompleted t)),
           (''createdAt'', JNum (createdAt t))]"

definition tasksToJson :: "Task list \<Rightarrow> json" where
  "tasksToJson tasks = JArr (map taskToJson tasks)"

text \<open>
  The other direction is the cast in \<^verbatim>\<open>setTasks(JSON.parse(saved))\<close>: a parsed value is a
  \<^verbatim>\<open>Task[]\<close> when it is an array of objects whose eight properties have the types of the
  interface. Reading a property gives the last member of that name.
\<close>

definition field :: "(string \<times> json) list \<Rightarrow> string \<Rightarrow> json option" where
  "field members k = map_of (rev members) k"

fun asString :: "json \<Rightarrow> string option" where
  "asString (JStr s) = Some s"
| "asString _ = None"

fun asBool :: "json \<Rightarrow> bool option" where
  "asBool (JBool b) = Some b"
| "asBool _ = None"

fun asNumber :: "json \<Rightarrow> int option" where
  "asNumber (JNum n) = Some n"
| "asNumber _ = None"

fun asNumbers :: "json \<Rightarrow> int list option" where
  "asNumbers (JArr elements) = those (map asNumber elements)"
| "asNumbers _ = None"

definition categoryOfLabel :: "string \<Rightarrow> TaskCategory option" where
  "categoryOfLabel s =
     (if s = label_RESEARCH then Some RESEARCH
      else if s = label_ADMIN then Some ADMIN
      else if s = label_PERSONAL then Some PERSONAL
      else if s = label_OTHER then Some OTHER
      else None)"

fun jsonToTask :: "json \<Rightarrow> Task option" where
  "jsonToTask (JObj members) =
     (case (Option.bind (field members ''id'') asString,
            Option.bind (field members ''content'') asString,
            Option.bind (field members ''remindTime'') asString,
            Option.bind (field members ''repeatDays'') asNumbers,
            Option.bind (Option.bind (field members ''category'') asString) categoryOfLabel,
            Option.bind (field members ''isActive'') asBool,
            Option.bind (field members ''isCompleted'') asBool,
            Option.bind (field members ''createdAt'') asNumber) of
        (Some i, Some c, Some r, Some d, Some g, Some a, Some done, Some made) \<Rightarrow>
          Some \<lparr>id_t = i, content = c, remindTime = r, repeatDays = d, category = g,
                isActive = a, isCompleted = done, createdAt = made\<rparr>
      | _ \<Rightarrow> None)"
| "jsonToTask _ = None"

fun jsonToTasks :: "json \<Rightarrow> Task list option" where
  "jsonToTasks (JArr elements) = those (map jsonToTask elements)"
| "jsonToTasks _ = None"

text \<open>
  \<^verbatim>\<open>localStorage\<close> is a map from keys to strings. The save effect writes the whole
  collection; the load effect reads it: nothing saved or an empty string (both falsy) or
  a text that \<^verbatim>\<open>JSON.parse\<close> rejects leave the state as it is, anything parsed becomes
  the state, a \<^verbatim>\<open>Task[]\<close> or not. \<^verbatim>\<open>JSON.stringify\<close> and \<^verbatim>\<open>JSON.parse\<close> are parameters.
\<close>

datatype tasksState = Tasks "Task list" | NotTasks json

definition saveTasks ::
  "(json \<Rightarrow> string) \<Rightarrow> (string \<rightharpoonup> string) \<Rightarrow> Task list \<Rightarrow> (string \<rightharpoonup> string)" where
  "saveTasks stringify localStorage tasks =
     localStorage(STORAGE_KEY \<mapsto> stringify (tasksToJson tasks))"

definition loadTasks ::
  "(string \<Rightarrow> js_error + json) \<Rightarrow> (string \<rightharpoonup> string) \<Rightarrow> tasksState \<Rightarrow> tasksState" where
  "loadTasks parse localStorage state =
     (case localStorage STORAGE_KEY of
        None \<Rightarrow> state
      | Some saved \<Rightarrow>
          if saved = [] then state
          else (case parse saved of
                  Inl e \<Rightarrow> state
                | Inr v \<Rightarrow> (case jsonToTasks v of Some tasks \<Rightarrow> Tasks tasks | None \<Rightarrow> NotTasks v)))"

text \<open>
  Two notions for the proof that \<open>JSON_parse\<close> inverts \<open>JSON_stringify\<close>: what may follow
  a printed value (nothing, or a comma or closing bracket), and the fuel that parsing a
  printed value takes.
\<close>

definition endsNumber :: "string \<Rightarrow> bool" where
  "endsNumber rest \<longleftrightarrow> rest = [] \<or> hd rest \<in> {CHR '','', CHR '']'', CHR ''}''}"

fun weight :: "json \<Rightarrow> nat" where
  "weight (JArr elements) = 1 + sum_list (map (\<lambda>x. 1 + weight x) elements)"
| "weight (JObj members) = 1 + sum_list (map (\<lambda>m. 1 + weight (snd m)) members)"
| "weight _ = 1"

section \<open>Instances for closed examples\<close>

text \<open>
  A parser that knows three ISO strings (Wednesday 1 January 2025, 09:00 UTC; Tuesday
  7 January 2025, 09:00 UTC; Wednesday 8 January 2025, 09:00 UTC) and the time zone UTC.
\<close>

definition exampleParse :: "string \<Rightarrow> int option" where
  "exampleParse s =
     (if s = ''2025-01-01T09:00:00.000Z'' then Some 1735722000000
      else if s = ''2025-01-07T09:00:00.000Z'' then Some 1736240400000
      else if s = ''2025-01-08T09:00:00.000Z'' then Some 1736326800000
      else None)"

text \<open>A response text of the API: \<^verbatim>\<open>{"category":"..."}\<close> with the first label.\<close>

definition researchResponse :: string where
  "researchResponse =
     ''{'' @ [CHR 0x22] @ ''category'' @ [CHR 0x22] @ '':'' @
       [CHR 0x22, CHR 0xE7, CHR 0xA0, CHR 0x94, CHR 0xE7, CHR 0x99] @ [CHR 0xBC, CHR 0x22] @
       ''}''"

definition utc :: "int \<Rightarrow> int" where
  "utc t = 0"

text \<open>A small collection used to instantiate the theorems below.\<close>

definition task_a :: Task where
  "task_a = \<lparr>id_t = ''a'', content = ''Submit report'',
     remindTime = ''2025-01-01T09:00:00.000Z'', repeatDays = [],
     category = ADMIN, isActive = True, isCompleted = False, createdAt = 1735700000000\<rparr>"

definition task_b :: Task where
  "task_b = \<lparr>id_t = ''b'', content = ''Stand-up'',
     remindTime = ''2025-01-01T09:00:00.000Z'', repeatDays = [1, 3],
     category = RESEARCH, isActive = True, isCompleted = False, createdAt = 1735700000001\<rparr>"

section \<open>Decimal rendering and keys\<close>

lemma digitChar_inj: "d < 10 \<Longrightarrow> e < 10 \<Longrightarrow> digitChar d = digitChar e \<Longrightarrow> d = e"
proof -
  assume d: "d < 10" and e: "e < 10" and eq: "digitChar d = digitChar e"
  have D: "d \<in> {0, 1, 2, 3, 4, 5, 6, 7, 8, 9}" using d by auto
  have E: "e \<in> {0, 1, 2, 3, 4, 5, 6, 7, 8, 9}" using e by auto
  show ?thesis using D E eq unfolding digitChar_def
    by (elim insertE emptyE) simp_all
qed

lemma digitChar_not_minus: "d < 10 \<Longrightarrow> digitChar d \<noteq> CHR ''-''"
proof -
  assume d: "d < 10"
  have D: "d \<in> {0, 1, 2, 3, 4, 5, 6, 7, 8, 9}" using d by auto
  show ?thesis using D unfolding digitChar_def
    by (elim insertE emptyE) simp_all
qed

lemma showNat_not_Nil: "showNat n \<noteq> []" "[] \<noteq> showNat n"
  by (subst showNat.simps, simp)+

lemma showNat_no_minus: "CHR ''-'' \<notin> set (showNat n)"
proof (induction n rule: showNat.induct)
  case (1 n)
  show ?case
  proof (cases "n < 10")
    case True
    then show ?thesis by (subst showNat.simps) (simp add: digitChar_not_minus [symmetric])
  next
    case False
    then have "CHR ''-'' \<notin> set (showNat (n div 10))" by (rule "1.IH")
    moreover have "digitChar (n mod 10) \<noteq> CHR ''-''" by (simp add: digitChar_not_minus)
    ultimately show ?thesis using False by (subst showNat.simps) auto
  qed
qed




section \<open>The reminder monitor: one iteration\<close>

text \<open>The nested tests of the loop body, flattened.\<close>

lemma checkTask_cases:
  "checkTask P tza now g task st =
     (if isActive task \<and> \<not> isCompleted task
         \<and> (\<exists>tt. P (remindTime task) = Some tt \<and> inWindow tt now
               \<and> notificationKey (id_t task) tt \<notin> notifiedTasks st
               \<and> (repeatDays task = [] \<or> recurringMatch tza task tt now))
      then st\<lparr>shown := (if g then shown st @ [notificationOf task] else shown st),
              notifiedTasks :=
                insert (notificationKey (id_t task) (the (P (remindTime task)))) (notifiedTasks st)\<rparr>
      else st)"
  unfolding checkTask_def inWindow_def recurringMatch_def notificationOf_def Let_def
  by (cases "P (remindTime task)") auto





text \<open>Facts for evaluating the closed examples.\<close>

lemma example_times:
  "getDay utc 1735722000000 = 3" "getHours utc 1735722000000 = 9"
  "getMinutes utc 1735722000000 = 0"
  "getDay utc 1736240400000 = 2" "getHours utc 1736240400000 = 9"
  "getMinutes utc 1736240400000 = 0"
  "getDay utc 1736326800000 = 3" "getHours utc 1736326800000 = 9"
  "getMinutes utc 1736326800000 = 0"
  "getHours utc 1735722001000 = 9" "getMinutes utc 1735722001000 = 0"
  "getDay utc 1735722001000 = 3"
  by (simp_all add: getDay_def getHours_def getMinutes_def utc_def)

lemma example_keys:
  "notificationKey ''a'' 1735722000000 = ''a-1735722000000''"
  "notificationKey ''b'' 1735722000000 = ''b-1735722000000''"
  by (simp_all add: notificationKey_def showInt_def showNat.simps digitChar_def)

lemmas example_simps =
  checkTask_cases checkTasks_def runChecks_def inWindow_def recurringMatch_def
  exampleParse_def initialScheduler_def task_a_def task_b_def example_times example_keys

text \<open>
  Claim C4. For a task that is completed or not active, the iteration of the check
  returns the state it was given, whatever the time, the permission, the stored
  remindTime and repeatDays and the notified set are: no notification is constructed
  and no key is recorded.
\<close>

theorem inactive_or_completed_never_fires:
  "isCompleted task \<or> \<not> isActive task \<Longrightarrow> checkTask P tza now g task st = st"
  by (auto simp: checkTask_def)

theorem inactive_or_completed_never_fires_witness:
  "isCompleted (task_a\<lparr>isCompleted := True\<rparr>)
   \<and> checkTask exampleParse utc 1735722000000 True (task_a\<lparr>isCompleted := True\<rparr>)
        initialScheduler = initialScheduler
   \<and> checkTask exampleParse utc 1735722000000 True task_a initialScheduler
        \<noteq> initialScheduler"
proof -
  have c: "isCompleted (task_a\<lparr>isCompleted := True\<rparr>)" by simp
  have "checkTask exampleParse utc 1735722000000 True (task_a\<lparr>isCompleted := True\<rparr>)
        initialScheduler = initialScheduler"
    using inactive_or_completed_never_fires [of "task_a\<lparr>isCompleted := True\<rparr>"] c by blast
  moreover have "checkTask exampleParse utc 1735722000000 True task_a initialScheduler
        \<noteq> initialScheduler"
    by (simp add: example_simps)
  ultimately show ?thesis using c by blast
qed

text \<open>
  Claim C3. If the iteration for a task changes anything (constructs a notification or
  records a key), then the stored remindTime is a valid date whose difference to \<open>now\<close>
  is at most 0 and above -60000 milliseconds, and, when repeatDays is not empty, the
  weekday of \<open>now\<close> is in repeatDays and hour and minute of the stored time equal those
  of \<open>now\<close>. A one-time task that is active, not completed, inside the window and not
  yet notified needs nothing more: with permission granted its notification is
  constructed.
\<close>

theorem fires_only_if:
  "(shown (checkTask P tza now g task st) \<noteq> shown st
      \<or> notifiedTasks (checkTask P tza now g task st) \<noteq> notifiedTasks st
    \<longrightarrow> (\<exists>taskTime. P (remindTime task) = Some taskTime
           \<and> taskTime - now \<le> 0 \<and> taskTime - now > - 60000
           \<and> (repeatDays task \<noteq> [] \<longrightarrow>
                getDay tza now \<in> set (repeatDays task)
                \<and> getHours tza taskTime = getHours tza now
                \<and> getMinutes tza taskTime = getMinutes tza now)))
   \<and> (isActive task \<and> \<not> isCompleted task \<and> repeatDays task = []
        \<and> P (remindTime task) = Some tt \<and> tt - now \<le> 0 \<and> tt - now > - 60000
        \<and> notificationKey (id_t task) tt \<notin> notifiedTasks st
      \<longrightarrow> shown (checkTask P tza now True task st) = shown st @ [notificationOf task])"
  by (auto simp: checkTask_cases inWindow_def recurringMatch_def)

theorem fires_only_if_witness:
  "shown (checkTask exampleParse utc 1735722001000 True task_b initialScheduler)
     \<noteq> shown initialScheduler
   \<and> (\<exists>taskTime. exampleParse (remindTime task_b) = Some taskTime
         \<and> taskTime - 1735722001000 \<le> 0 \<and> taskTime - 1735722001000 > - 60000
         \<and> getDay utc 1735722001000 \<in> set (repeatDays task_b)
         \<and> getHours utc taskTime = getHours utc 1735722001000
         \<and> getMinutes utc taskTime = getMinutes utc 1735722001000)
   \<and> shown (checkTask exampleParse utc 1735722001000 True task_a initialScheduler)
       = [notificationOf task_a]"
proof -
  note b = fires_only_if [where P = exampleParse and tza = utc and now = 1735722001000
      and g = True and task = task_b and st = initialScheduler and tt = 1735722000000]
  note a = fires_only_if [where P = exampleParse and tza = utc and now = 1735722001000
      and g = True and task = task_a and st = initialScheduler and tt = 1735722000000]
  have fired: "shown (checkTask exampleParse utc 1735722001000 True task_b initialScheduler)
     \<noteq> shown initialScheduler"
    by (simp add: example_simps)
  have rec: "repeatDays task_b \<noteq> []"
    by (simp add: task_b_def)
  have one: "isActive task_a \<and> \<not> isCompleted task_a \<and> repeatDays task_a = []
      \<and> exampleParse (remindTime task_a) = Some 1735722000000
      \<and> (1735722000000::int) - 1735722001000 \<le> 0
      \<and> (1735722000000::int) - 1735722001000 > - 60000
      \<and> notificationKey (id_t task_a) 1735722000000 \<notin> notifiedTasks initialScheduler"
    by (simp add: example_simps)
  have "shown (checkTask exampleParse utc 1735722001000 True task_a initialScheduler)
      = shown initialScheduler @ [notificationOf task_a]"
    using a one by blast
  then have shown_a: "shown (checkTask exampleParse utc 1735722001000 True task_a initialScheduler)
      = [notificationOf task_a]"
    by (simp add: initialScheduler_def)
  show ?thesis
    using b fired rec shown_a by blast
qed



section \<open>The reminder monitor: runs of the timer\<close>

















text \<open>
  Claim C1, evaluated on the scenario of the specification. The recurring task
  \<open>task_b\<close> (Monday and Wednesday, stored time Wednesday 1 January 2025, 09:00) is
  checked on that Wednesday at 09:00 and on the following Wednesday at 09:00, a weekday
  of repeatDays at the stored hour and minute. The first check constructs a
  notification; the second constructs none, and it would construct none even if the
  notified set were empty, since the stored instant is more than 60 seconds in the past.
\<close>

theorem recurring_task_silent_the_following_week:
  "shown (runChecks exampleParse utc [(1735722000000, True, [task_b])] initialScheduler)
     = [notificationOf task_b]
   \<and> getDay utc 1736326800000 \<in> set (repeatDays task_b)
   \<and> getHours utc 1736326800000 = getHours utc 1735722000000
   \<and> getMinutes utc 1736326800000 = getMinutes utc 1735722000000
   \<and> shown (runChecks exampleParse utc
        [(1735722000000, True, [task_b]), (1736326800000, True, [task_b])] initialScheduler)
     = [notificationOf task_b]
   \<and> checkTasks exampleParse utc 1736326800000 True [task_b] initialScheduler
     = initialScheduler"
  by (simp add: example_simps)

section \<open>Toggling and deleting\<close>

lemma toggleTask_twice: "toggleTask i (toggleTask i ts) = ts"
  by (induction ts) (simp_all add: toggleTask_def)

lemma toggleTask_funpow:
  "(toggleTask i ^^ n) ts = (if even n then ts else toggleTask i ts)"
proof (induction n)
  case 0
  show ?case by simp
next
  case (Suc n)
  then show ?case by (simp add: toggleTask_twice)
qed

lemma deleteTask_absent: "i \<notin> id_t ` set ts \<Longrightarrow> deleteTask i ts = ts"
  by (induction ts) (auto simp: deleteTask_def)

text \<open>
  Claim C8. Applying \<open>toggleTask i\<close> \<open>n\<close> times gives the same collection as applying it
  \<open>n mod 2\<close> times; for a task with the given id at position \<open>k\<close> the final
  \<open>isCompleted\<close> is the original value when \<open>n mod 2 = 0\<close> and its negation otherwise;
  two toggles restore the original collection. Deleting an id \<open>j\<close> that no task of the
  collection has leaves the collection unchanged.
\<close>

theorem toggle_parity_delete_absent:
  "(toggleTask i ^^ n) ts = (toggleTask i ^^ (n mod 2)) ts
   \<and> (\<forall>k < length ts. id_t (ts ! k) = i \<longrightarrow>
        isCompleted ((toggleTask i ^^ n) ts ! k) =
          (if n mod 2 = 0 then isCompleted (ts ! k) else \<not> isCompleted (ts ! k)))
   \<and> toggleTask i (toggleTask i ts) = ts
   \<and> (j \<notin> id_t ` set ts \<longrightarrow> deleteTask j ts = ts)"
proof -
  have "n mod 2 = 0 \<or> n mod 2 = 1" by arith
  then have parity: "(toggleTask i ^^ n) ts = (toggleTask i ^^ (n mod 2)) ts"
    by (auto simp: toggleTask_funpow even_iff_mod_2_eq_zero)
  have flag: "\<forall>k < length ts. id_t (ts ! k) = i \<longrightarrow>
        isCompleted ((toggleTask i ^^ n) ts ! k) =
          (if n mod 2 = 0 then isCompleted (ts ! k) else \<not> isCompleted (ts ! k))"
    by (simp add: toggleTask_funpow even_iff_mod_2_eq_zero) (simp add: toggleTask_def)
  show ?thesis
    using parity flag toggleTask_twice [of i ts] deleteTask_absent [of j ts] by blast
qed

theorem toggle_parity_delete_absent_witness:
  "isCompleted ((toggleTask ''a'' ^^ 3) [task_a, task_b] ! 0)
   \<and> \<not> isCompleted ((toggleTask ''a'' ^^ 4) [task_a, task_b] ! 0)
   \<and> ''zz'' \<notin> id_t ` set [task_a, task_b]
   \<and> deleteTask ''zz'' [task_a, task_b] = [task_a, task_b]"
proof -
  let ?ts = "[task_a, task_b]"
  note t3 = toggle_parity_delete_absent
      [where i = "''a''" and n = 3 and ts = ?ts and j = "''zz''"]
  note t4 = toggle_parity_delete_absent
      [where i = "''a''" and n = 4 and ts = ?ts and j = "''zz''"]
  have ids: "''zz'' \<notin> id_t ` set ?ts"
    by (simp add: task_a_def task_b_def)
  have k: "(0::nat) < length ?ts" "id_t (?ts ! 0) = ''a''"
    by (simp_all add: task_a_def)
  have c: "\<not> isCompleted (?ts ! 0)"
    by (simp add: task_a_def)
  have "isCompleted ((toggleTask ''a'' ^^ 3) ?ts ! 0) =
          (if (3::nat) mod 2 = 0 then isCompleted (?ts ! 0) else \<not> isCompleted (?ts ! 0))"
    using t3 k by blast
  then have three: "isCompleted ((toggleTask ''a'' ^^ 3) ?ts ! 0)"
    using c by simp
  have "isCompleted ((toggleTask ''a'' ^^ 4) ?ts ! 0) =
          (if (4::nat) mod 2 = 0 then isCompleted (?ts ! 0) else \<not> isCompleted (?ts ! 0))"
    using t4 k by blast
  then have four: "\<not> isCompleted ((toggleTask ''a'' ^^ 4) ?ts ! 0)"
    using c by simp
  have del: "deleteTask ''zz'' ?ts = ?ts"
    using t3 ids by blast
  show ?thesis
    using three four ids del by blast
qed

text \<open>
  Claim C10. \<open>toggleTask i\<close> keeps the length of the collection; at every position the
  task keeps its id, content, remindTime, repeatDays, category, isActive and createdAt
  (so the order of the elements is kept); a task whose id differs from \<open>i\<close> is left as
  it is, and a task whose id is \<open>i\<close> is the old task with only \<open>isCompleted\<close> negated.
\<close>

theorem toggleTask_frame:
  "length (toggleTask i ts) = length ts
   \<and> (\<forall>k < length ts.
        id_t (toggleTask i ts ! k) = id_t (ts ! k)
      \<and> content (toggleTask i ts ! k) = content (ts ! k)
      \<and> remindTime (toggleTask i ts ! k) = remindTime (ts ! k)
      \<and> repeatDays (toggleTask i ts ! k) = repeatDays (ts ! k)
      \<and> category (toggleTask i ts ! k) = category (ts ! k)
      \<and> isActive (toggleTask i ts ! k) = isActive (ts ! k)
      \<and> createdAt (toggleTask i ts ! k) = createdAt (ts ! k)
      \<and> (id_t (ts ! k) \<noteq> i \<longrightarrow> toggleTask i ts ! k = ts ! k)
      \<and> (id_t (ts ! k) = i \<longrightarrow>
           toggleTask i ts ! k = (ts ! k)\<lparr>isCompleted := \<not> isCompleted (ts ! k)\<rparr>))"
  by (simp add: toggleTask_def)

theorem toggleTask_frame_witness:
  "length (toggleTask ''a'' [task_a, task_b]) = 2
   \<and> toggleTask ''a'' [task_a, task_b] ! 1 = task_b
   \<and> toggleTask ''a'' [task_a, task_b] ! 0 = task_a\<lparr>isCompleted := True\<rparr>"
proof -
  have k: "(0::nat) < length [task_a, task_b]" "(1::nat) < length [task_a, task_b]"
    "id_t ([task_a, task_b] ! 0) = ''a''" "id_t ([task_a, task_b] ! 1) \<noteq> ''a''"
    "\<not> isCompleted task_a"
    by (simp_all add: task_a_def task_b_def)
  show ?thesis
    using toggleTask_frame [of "''a''" "[task_a, task_b]"] k by auto
qed

section \<open>The AI gateway\<close>

lemma orElse_not_Nil: "d \<noteq> [] \<Longrightarrow> orElse s d \<noteq> []"
  by (simp add: orElse_def split: option.splits)

text \<open>
  Claim C7. On the empty list the result is the canned empty-state message and no
  request is sent. On a non-empty list the result is a string (no exception reaches the
  caller) that is not empty, whatever the API call does; when the request fails it is
  the canned connection-failure message.
\<close>

theorem getDailySummary_total:
  "getDailySummary generateContent fmt [] = (Inr emptySummary, [])
   \<and> (tasks \<noteq> [] \<longrightarrow>
        (\<exists>s. fst (getDailySummary generateContent fmt tasks) = Inr s \<and> s \<noteq> []))
   \<and> (tasks \<noteq> [] \<and> generateContent (summaryRequest fmt tasks) = Inl e \<longrightarrow>
        fst (getDailySummary generateContent fmt tasks) = Inr connectionFailed)
   \<and> connectionFailed \<noteq> [] \<and> emptySummary \<noteq> []"
proof -
  have c: "connectionFailed \<noteq> []" by (simp add: connectionFailed_def)
  have n: "noSummary \<noteq> []" by (simp add: noSummary_def)
  have e: "emptySummary \<noteq> []" by (simp add: emptySummary_def)
  have 1: "getDailySummary generateContent fmt [] = (Inr emptySummary, [])"
    by (simp add: getDailySummary_def)
  have 2: "\<exists>s. fst (getDailySummary generateContent fmt tasks) = Inr s \<and> s \<noteq> []"
    if "tasks \<noteq> []"
    using that c n
    by (simp add: getDailySummary_def getDailySummary_try_def Let_def orElse_not_Nil
        split: sum.splits)
  have 3: "fst (getDailySummary generateContent fmt tasks) = Inr connectionFailed"
    if "tasks \<noteq> []" "generateContent (summaryRequest fmt tasks) = Inl e"
    using that by (simp add: getDailySummary_def getDailySummary_try_def Let_def)
  show ?thesis using 1 2 3 c e by blast
qed

text \<open>
  Claim C6. Whatever the API call and \<^verbatim>\<open>JSON.parse\<close> do, the result is a category (no
  exception reaches the caller), one of the four values, with one of the four labels as
  its run-time string. When the request fails, when \<^verbatim>\<open>JSON.parse\<close> throws, or when the
  parsed value has no readable category, the result is \<open>OTHER\<close>.
\<close>

theorem categorizeTask_total:
  "(\<exists>c. fst (categorizeTask generateContent parse s) = Inr c
        \<and> c \<in> {RESEARCH, ADMIN, PERSONAL, OTHER}
        \<and> categoryValue c \<in> {label_RESEARCH, label_ADMIN, label_PERSONAL, label_OTHER})
   \<and> (generateContent (categoryRequest s) = Inl e \<longrightarrow>
        fst (categorizeTask generateContent parse s) = Inr OTHER)
   \<and> (generateContent (categoryRequest s) = Inr r
        \<and> parse (orElse (response_text r) ''{}'') = Inl e' \<longrightarrow>
        fst (categorizeTask generateContent parse s) = Inr OTHER)
   \<and> (generateContent (categoryRequest s) = Inr r
        \<and> parse (orElse (response_text r) ''{}'') = Inr v \<and> getCategory v \<in> {Inl TypeError, Inr None} \<longrightarrow>
        fst (categorizeTask generateContent parse s) = Inr OTHER)"
proof -
  have four: "c \<in> {RESEARCH, ADMIN, PERSONAL, OTHER}
      \<and> categoryValue c \<in> {label_RESEARCH, label_ADMIN, label_PERSONAL, label_OTHER}" for c
    by (cases c) simp_all
  have "\<exists>c. fst (categorizeTask generateContent parse s) = Inr c"
    by (simp add: categorizeTask_def Let_def split: sum.splits)
  then have 1: "\<exists>c. fst (categorizeTask generateContent parse s) = Inr c
        \<and> c \<in> {RESEARCH, ADMIN, PERSONAL, OTHER}
        \<and> categoryValue c \<in> {label_RESEARCH, label_ADMIN, label_PERSONAL, label_OTHER}"
    using four by blast
  have 2: "fst (categorizeTask generateContent parse s) = Inr OTHER"
    if "generateContent (categoryRequest s) = Inl e"
    using that by (simp add: categorizeTask_def categorizeTask_try_def Let_def)
  have 3: "fst (categorizeTask generateContent parse s) = Inr OTHER"
    if "generateContent (categoryRequest s) = Inr r"
      "parse (orElse (response_text r) ''{}'') = Inl e'"
    using that by (simp add: categorizeTask_def categorizeTask_try_def Let_def)
  have 4: "fst (categorizeTask generateContent parse s) = Inr OTHER"
    if "generateContent (categoryRequest s) = Inr r"
      "parse (orElse (response_text r) ''{}'') = Inr v" "getCategory v \<in> {Inl TypeError, Inr None}"
    using that by (auto simp: categorizeTask_def categorizeTask_try_def Let_def)
  show ?thesis using 1 2 3 4 by blast
qed

section \<open>JSON text: the parser inverts the printer\<close>

lemma hexVal_hexDigit: "d < 16 \<Longrightarrow> hexVal (hexDigit d) = Some d"
proof -
  assume "d < 16"
  then have "d \<in> {0, 1, 2, 3, 4, 5, 6, 7, 8, 9, 10, 11, 12, 13, 14, 15}"
    unfolding insert_iff empty_iff by presburger
  then show ?thesis unfolding hexDigit_def hexVal_def
    by (elim insertE emptyE) simp_all
qed

lemma unhex4_low: "n < 32 \<Longrightarrow>
  unhex4 (CHR ''0'') (CHR ''0'') (hexDigit (n div 16)) (hexDigit (n mod 16)) = Some n"
proof -
  assume n: "n < 32"
  have z: "hexVal (CHR ''0'') = Some 0" by (simp add: hexVal_def)
  have "n div 16 < 16" using n by simp
  then have a: "hexVal (hexDigit (n div 16)) = Some (n div 16)" by (rule hexVal_hexDigit)
  have b: "hexVal (hexDigit (n mod 16)) = Some (n mod 16)" by (rule hexVal_hexDigit) simp
  show ?thesis by (simp add: unhex4_def z a b)
qed

lemma parseChars_escapeChar:
  "parseChars (escapeChar c @ s) =
     (case parseChars s of None \<Rightarrow> None | Some (str, rest) \<Rightarrow> Some (c # str, rest))"
proof -
  consider "c = CHR 0x08" | "c = CHR 0x09" | "c = CHR 0x0A" | "c = CHR 0x0C" | "c = CHR 0x0D"
    | "c = CHR 0x22" | "c = CHR 0x5C"
    | "c \<notin> {CHR 0x08, CHR 0x09, CHR 0x0A, CHR 0x0C, CHR 0x0D, CHR 0x22, CHR 0x5C}" "(of_char c :: nat) < 32"
    | "c \<notin> {CHR 0x08, CHR 0x09, CHR 0x0A, CHR 0x0C, CHR 0x0D, CHR 0x22, CHR 0x5C}" "\<not> (of_char c :: nat) < 32"
    by blast
  then show ?thesis
  proof cases
    case 8
    then show ?thesis
      by (simp add: escapeChar_def unhex4_low split: option.splits)
  next
    case 9
    then show ?thesis by (simp add: escapeChar_def)
  qed (simp_all add: escapeChar_def unescape_def split: option.splits)
qed

lemma parseChars_quoted:
  "parseChars (concat (map escapeChar s) @ CHR 0x22 # rest) = Some (s, rest)"
  by (induction s) (simp_all add: parseChars_escapeChar)


lemma digitChar_isDigit: "d < 10 \<Longrightarrow> isDigit (digitChar d) \<and> digitVal (digitChar d) = d"
proof -
  assume "d < 10"
  then have "d \<in> {0, 1, 2, 3, 4, 5, 6, 7, 8, 9}"
    unfolding insert_iff empty_iff by presburger
  then show ?thesis unfolding digitChar_def isDigit_def digitVal_def
    by (elim insertE emptyE) simp_all
qed

lemma showNat_digits: "\<forall>c \<in> set (showNat n). isDigit c"
proof (induction n rule: showNat.induct)
  case (1 n)
  show ?case
  proof (cases "n < 10")
    case True
    then show ?thesis by (subst showNat.simps) (simp add: digitChar_isDigit)
  next
    case False
    then have "\<forall>c \<in> set (showNat (n div 10)). isDigit c" by (rule "1.IH")
    moreover have "isDigit (digitChar (n mod 10))" by (simp add: digitChar_isDigit)
    ultimately show ?thesis using False by (subst showNat.simps) auto
  qed
qed

lemma readNat_snoc: "readNat (ds @ [c]) = 10 * readNat ds + digitVal c"
  by (simp add: readNat_def)

lemma readNat_showNat: "readNat (showNat n) = n"
proof (induction n rule: showNat.induct)
  case (1 n)
  show ?case
  proof (cases "n < 10")
    case True
    then show ?thesis by (subst showNat.simps) (simp add: readNat_def digitChar_isDigit)
  next
    case False
    then have "readNat (showNat (n div 10)) = n div 10" by (rule "1.IH")
    then show ?thesis using False
      by (subst showNat.simps) (simp add: readNat_snoc digitChar_isDigit)
  qed
qed

lemma showNat_no_leading_zero: "1 < length (showNat n) \<Longrightarrow> hd (showNat n) \<noteq> CHR ''0''"
proof (induction n rule: showNat.induct)
  case (1 n)
  show ?case
  proof (cases "n < 10")
    case True
    then have "length (showNat n) = 1" by (subst showNat.simps) simp
    then show ?thesis using "1.prems" by simp
  next
    case False
    have split: "showNat n = showNat (n div 10) @ [digitChar (n mod 10)]"
      using False by (subst showNat.simps) simp
    show ?thesis
    proof (cases "n div 10 < 10")
      case True
      then have one: "showNat (n div 10) = [digitChar (n div 10)]"
        by (subst showNat.simps) simp
      have "0 < n div 10" using False by simp
      then have "digitChar (n div 10) \<noteq> digitChar 0"
        using True digitChar_inj [of "n div 10" 0] by auto
      then show ?thesis by (simp add: split one digitChar_def)
    next
      case big: False
      then have "1 < length (showNat (n div 10))"
        by (subst showNat.simps) (simp add: showNat_not_Nil Suc_lessI)
      then have "hd (showNat (n div 10)) \<noteq> CHR ''0''"
        using False "1.IH" by blast
      then show ?thesis by (simp add: split showNat_not_Nil)
    qed
  qed
qed

lemma endsNumber_takeWhile:
  assumes "endsNumber rest"
  shows "takeWhile isDigit (showNat n @ rest) = showNat n"
    and "dropWhile isDigit (showNat n @ rest) = rest"
proof -
  have r: "rest = [] \<or> \<not> isDigit (hd rest)"
    using assms by (auto simp: endsNumber_def isDigit_def)
  show "takeWhile isDigit (showNat n @ rest) = showNat n"
    using r showNat_digits [of n] by (cases rest) (auto simp: takeWhile_append2)
  show "dropWhile isDigit (showNat n @ rest) = rest"
    using r showNat_digits [of n] by (cases rest) (auto simp: dropWhile_append2)
qed

lemma parseNumber_showInt:
  assumes "endsNumber rest"
  shows "parseNumber (showInt i @ rest) = Some (i, rest)"
proof -
  have nodot: "\<not> (rest \<noteq> [] \<and> hd rest \<in> {CHR ''.'', CHR ''e'', CHR ''E''})"
    using assms by (auto simp: endsNumber_def)
  have nz: "\<not> (1 < length (showNat n) \<and> hd (showNat n) = CHR ''0'')" for n
    using showNat_no_leading_zero by blast
  have nominus: "hd (showNat n @ rest) \<noteq> CHR ''-''" for n
    using showNat_no_minus [of n] showNat_not_Nil(1) [of n] by (cases "showNat n") auto
  show ?thesis
  proof (cases "i < 0")
    case True
    then show ?thesis
      using nodot nz
      by (simp add: parseNumber_def showInt_def Let_def endsNumber_takeWhile [OF assms]
          showNat_not_Nil readNat_showNat)
  next
    case False
    then show ?thesis
      using nodot nz nominus
      by (simp add: parseNumber_def showInt_def Let_def endsNumber_takeWhile [OF assms]
          showNat_not_Nil readNat_showNat)
  qed
qed


lemma join_Cons: "join sep (x # xs) = (if xs = [] then x else x @ sep @ join sep xs)"
  by (cases xs) simp_all

lemma skipWs_Cons: "\<not> isWs c \<Longrightarrow> skipWs (c # s) = c # s"
  by (simp add: skipWs_def)

lemma showInt_first: "\<exists>c s. showInt i = c # s \<and> (isDigit c \<or> c = CHR ''-'')"
proof (cases "i < 0")
  case True
  then show ?thesis by (simp add: showInt_def)
next
  case False
  obtain c s where cs: "showNat (nat i) = c # s"
    using showNat_not_Nil(1) [of "nat i"] by (cases "showNat (nat i)") auto
  then have "isDigit c" using showNat_digits [of "nat i"] by simp
  then show ?thesis using False cs by (simp add: showInt_def)
qed

lemma number_start:
  "isDigit c \<or> c = CHR ''-'' \<Longrightarrow>
   \<not> isWs c \<and> c \<noteq> CHR ''n'' \<and> c \<noteq> CHR ''t'' \<and> c \<noteq> CHR ''f'' \<and> c \<noteq> CHR 0x22
   \<and> c \<noteq> CHR ''['' \<and> c \<noteq> CHR ''{'' \<and> c \<noteq> CHR '']'' \<and> c \<noteq> CHR ''}''"
  by (auto simp: isDigit_def isWs_def)

lemma stringify_first:
  "\<exists>c s. JSON_stringify j = c # s \<and> \<not> isWs c \<and> c \<noteq> CHR '']'' \<and> c \<noteq> CHR ''}''"
proof (cases j)
  case (JNum i)
  obtain c s where "showInt i = c # s" "isDigit c \<or> c = CHR ''-''"
    using showInt_first by blast
  then show ?thesis using JNum number_start [of c] by simp
qed (simp_all add: isWs_def quoteJSONString_def)

lemma parseValue_number:
  assumes "endsNumber rest"
  shows "parseValue (Suc fuel) (showInt i @ rest) = Some (JNum i, rest)"
proof -
  obtain c s where cs: "showInt i = c # s" "isDigit c \<or> c = CHR ''-''"
    using showInt_first by blast
  have "parseNumber (c # s @ rest) = Some (i, rest)"
    using parseNumber_showInt [OF assms, of i] cs(1) by simp
  then show ?thesis
    using cs number_start [of c] by (simp add: skipWs_Cons)
qed

lemma parseElements_join:
  assumes "\<And>x fuel rest. x \<in> set xs \<Longrightarrow> weight x \<le> fuel \<Longrightarrow> endsNumber rest
      \<Longrightarrow> parseValue fuel (JSON_stringify x @ rest) = Some (x, rest)"
    and "xs \<noteq> []" "sum_list (map (\<lambda>x. 1 + weight x) xs) \<le> fuel"
  shows "parseElements fuel (join '','' (map JSON_stringify xs) @ CHR '']'' # rest) = Some (xs, rest)"
  using assms
proof (induction xs arbitrary: fuel)
  case Nil
  then show ?case by simp
next
  case (Cons x xs)
  obtain f where fuel: "fuel = Suc f" using Cons.prems(3) by (cases fuel) auto
  have wx: "weight x \<le> f" using Cons.prems(3) fuel by simp
  show ?case
  proof (cases "xs = []")
    case True
    have "parseValue f (JSON_stringify x @ CHR '']'' # rest) = Some (x, CHR '']'' # rest)"
      using Cons.prems(1) [of x f "CHR '']'' # rest"] wx by (simp add: endsNumber_def)
    then show ?thesis using True fuel by (simp add: skipWs_Cons isWs_def)
  next
    case False
    let ?tail = "join '','' (map JSON_stringify xs) @ CHR '']'' # rest"
    have "parseValue f (JSON_stringify x @ CHR '','' # ?tail) = Some (x, CHR '','' # ?tail)"
      using Cons.prems(1) [of x f "CHR '','' # ?tail"] wx by (simp add: endsNumber_def)
    moreover have "parseElements f ?tail = Some (xs, rest)"
      using Cons.IH [of f] Cons.prems(1) False Cons.prems(3) fuel by simp
    ultimately show ?thesis
      using False fuel by (simp add: join_Cons skipWs_Cons isWs_def)
  qed
qed

lemma parseMembers_join:
  assumes "\<And>m fuel rest. m \<in> set ms \<Longrightarrow> weight (snd m) \<le> fuel \<Longrightarrow> endsNumber rest
      \<Longrightarrow> parseValue fuel (JSON_stringify (snd m) @ rest) = Some (snd m, rest)"
    and "ms \<noteq> []" "sum_list (map (\<lambda>m. 1 + weight (snd m)) ms) \<le> fuel"
  shows "parseMembers fuel
      (join '','' (map (\<lambda>m. quoteJSONString (fst m) @ '':'' @ JSON_stringify (snd m)) ms)
        @ CHR ''}'' # rest) = Some (ms, rest)"
  using assms
proof (induction ms arbitrary: fuel)
  case Nil
  then show ?case by simp
next
  case (Cons m ms)
  obtain k v where m: "m = (k, v)" by (cases m) auto
  obtain f where fuel: "fuel = Suc f" using Cons.prems(3) by (cases fuel) auto
  have wv: "weight v \<le> f" using Cons.prems(3) fuel m by simp
  have q: "\<not> isWs (CHR 0x22)" "\<not> isWs (CHR '':'')" "\<not> isWs (CHR '','')" "\<not> isWs (CHR ''}'')"
    by (simp_all add: isWs_def)
  show ?case
  proof (cases "ms = []")
    case True
    have "parseValue f (JSON_stringify v @ CHR ''}'' # rest) = Some (v, CHR ''}'' # rest)"
      using Cons.prems(1) [of m f "CHR ''}'' # rest"] wv m by (simp add: endsNumber_def)
    then show ?thesis
      using True fuel m q
      by (simp add: quoteJSONString_def skipWs_Cons parseChars_quoted)
  next
    case False
    let ?tail = "join '','' (map (\<lambda>m. quoteJSONString (fst m) @ '':'' @ JSON_stringify (snd m)) ms)
        @ CHR ''}'' # rest"
    have "parseValue f (JSON_stringify v @ CHR '','' # ?tail) = Some (v, CHR '','' # ?tail)"
      using Cons.prems(1) [of m f "CHR '','' # ?tail"] wv m by (simp add: endsNumber_def)
    moreover have "parseMembers f ?tail = Some (ms, rest)"
      using Cons.IH [of f] Cons.prems(1) False Cons.prems(3) fuel by simp
    ultimately show ?thesis
      using False fuel m q
      by (simp add: join_Cons quoteJSONString_def skipWs_Cons parseChars_quoted)
  qed
qed

lemma parseValue_array:
  "skipWs cs = d # ds \<Longrightarrow> d \<noteq> CHR '']'' \<Longrightarrow> parseElements f cs = Some (xs, rest)
   \<Longrightarrow> parseValue (Suc f) (CHR ''['' # cs) = Some (JArr xs, rest)"
  by (simp add: skipWs_Cons isWs_def)

lemma parseValue_object:
  "skipWs cs = d # ds \<Longrightarrow> d \<noteq> CHR ''}'' \<Longrightarrow> parseMembers f cs = Some (ms, rest)
   \<Longrightarrow> parseValue (Suc f) (CHR ''{'' # cs) = Some (JObj ms, rest)"
  by (simp add: skipWs_Cons isWs_def)

lemma parseValue_stringify:
  "weight j \<le> fuel \<Longrightarrow> endsNumber rest
   \<Longrightarrow> parseValue fuel (JSON_stringify j @ rest) = Some (j, rest)"
proof (induction j arbitrary: fuel rest)
  case JNull
  then obtain f where "fuel = Suc f" by (cases fuel) auto
  then show ?case by (simp add: skipWs_Cons isWs_def)
next
  case (JBool b)
  then obtain f where "fuel = Suc f" by (cases fuel) auto
  then show ?case by (simp add: skipWs_Cons isWs_def)
next
  case (JNum i)
  then obtain f where "fuel = Suc f" by (cases fuel) auto
  then show ?case
    using parseValue_number [OF JNum.prems(2), of f i] by (simp del: parseValue.simps)
next
  case (JStr s)
  then obtain f where "fuel = Suc f" by (cases fuel) auto
  then show ?case
    by (simp add: quoteJSONString_def skipWs_Cons isWs_def parseChars_quoted)
next
  case (JArr xs)
  then obtain f where fuel: "fuel = Suc f" by (cases fuel) auto
  show ?case
  proof (cases "xs = []")
    case True
    then show ?thesis using fuel by (simp add: skipWs_Cons isWs_def)
  next
    case False
    then obtain x xs' where xs: "xs = x # xs'" by (cases xs) auto
    obtain c s where first: "JSON_stringify x = c # s" "\<not> isWs c" "c \<noteq> CHR '']''"
      using stringify_first by blast
    let ?body = "join '','' (map JSON_stringify xs) @ CHR '']'' # rest"
    have start: "skipWs ?body = c # tl ?body" "c # tl ?body = ?body"
      using first xs by (simp_all add: join_Cons skipWs_Cons)
    have "sum_list (map (\<lambda>x. 1 + weight x) xs) \<le> f"
      using JArr.prems(1) fuel by simp
    then have "parseElements f ?body = Some (xs, rest)"
      using JArr.IH False parseElements_join [of xs f rest] by blast
    then have "parseValue (Suc f) (CHR ''['' # ?body) = Some (JArr xs, rest)"
      using start(1) first(3) by (rule parseValue_array [rotated 2])
    then show ?thesis
      using fuel by (simp del: parseValue.simps)
  qed
next
  case (JObj ms)
  then obtain f where fuel: "fuel = Suc f" by (cases fuel) auto
  show ?case
  proof (cases "ms = []")
    case True
    then show ?thesis using fuel by (simp add: skipWs_Cons isWs_def)
  next
    case False
    then obtain m ms' where ms: "ms = m # ms'" by (cases ms) auto
    let ?body = "join '','' (map (\<lambda>m. quoteJSONString (fst m) @ '':'' @ JSON_stringify (snd m)) ms)
        @ CHR ''}'' # rest"
    have start: "skipWs ?body = CHR 0x22 # tl ?body" "CHR 0x22 # tl ?body = ?body"
      using ms by (simp_all add: join_Cons skipWs_Cons quoteJSONString_def isWs_def)
    have ih: "parseValue fuel (JSON_stringify (snd m) @ rest) = Some (snd m, rest)"
      if "m \<in> set ms" "weight (snd m) \<le> fuel" "endsNumber rest" for m fuel rest
      using JObj.IH [of m "snd m" fuel rest] that by (cases m) auto
    have "sum_list (map (\<lambda>m. 1 + weight (snd m)) ms) \<le> f"
      using JObj.prems(1) fuel by simp
    then have "parseMembers f ?body = Some (ms, rest)"
      using ih False parseMembers_join [of ms f rest] by blast
    then have "parseValue (Suc f) (CHR ''{'' # ?body) = Some (JObj ms, rest)"
      using start(1) by (rule parseValue_object [rotated 2]) simp
    then show ?thesis
      using fuel by (simp del: parseValue.simps)
  qed
qed


lemma weight_elements_le:
  assumes "\<And>x. x \<in> set xs \<Longrightarrow> weight x \<le> 2 * length (JSON_stringify x)"
  shows "sum_list (map (\<lambda>x. 1 + weight x) xs)
    \<le> 2 * length (join '','' (map JSON_stringify xs)) + 1"
  using assms
proof (induction xs)
  case Nil
  show ?case by simp
next
  case (Cons x xs)
  have "weight x \<le> 2 * length (JSON_stringify x)" using Cons.prems by simp
  moreover have "sum_list (map (\<lambda>x. 1 + weight x) xs)
      \<le> 2 * length (join '','' (map JSON_stringify xs)) + 1"
    using Cons.IH Cons.prems by simp
  ultimately show ?case by (simp add: join_Cons)
qed

lemma weight_members_le:
  assumes "\<And>m. m \<in> set ms \<Longrightarrow> weight (snd m) \<le> 2 * length (JSON_stringify (snd m))"
  shows "sum_list (map (\<lambda>m. 1 + weight (snd m)) ms)
    \<le> 2 * length (join '',''
          (map (\<lambda>m. quoteJSONString (fst m) @ '':'' @ JSON_stringify (snd m)) ms)) + 1"
  using assms
proof (induction ms)
  case Nil
  show ?case by simp
next
  case (Cons m ms)
  have "weight (snd m) \<le> 2 * length (JSON_stringify (snd m))" using Cons.prems by simp
  moreover have "sum_list (map (\<lambda>m. 1 + weight (snd m)) ms)
      \<le> 2 * length (join '',''
          (map (\<lambda>m. quoteJSONString (fst m) @ '':'' @ JSON_stringify (snd m)) ms)) + 1"
    using Cons.IH Cons.prems by simp
  ultimately show ?case by (simp add: join_Cons)
qed

lemma weight_le_length: "weight j \<le> 2 * length (JSON_stringify j)"
proof (induction j)
  case (JNum i)
  obtain c s where "showInt i = c # s" using showInt_first by blast
  then show ?case by simp
next
  case (JArr xs)
  then show ?case using weight_elements_le [of xs] by simp
next
  case (JObj ms)
  have "weight (snd m) \<le> 2 * length (JSON_stringify (snd m))" if "m \<in> set ms" for m
    using JObj.IH [of m "snd m"] that by (cases m) auto
  then show ?case using weight_members_le [of ms] by simp
qed (simp_all add: quoteJSONString_def)

lemma JSON_parse_stringify: "JSON_parse (JSON_stringify j) = Inr j"
proof -
  have "weight j \<le> 2 * length (JSON_stringify j) + 2"
    using weight_le_length [of j] by simp
  then have "parseValue (2 * length (JSON_stringify j) + 2) (JSON_stringify j @ []) = Some (j, [])"
    by (rule parseValue_stringify) (simp add: endsNumber_def)
  then show ?thesis by (simp add: JSON_parse_def skipWs_def)
qed

lemma JSON_stringify_not_Nil: "JSON_stringify j \<noteq> []"
  using stringify_first [of j] by auto


section \<open>Persistence\<close>

lemma those_asNumber_JNum: "those (map (asNumber \<circ> JNum) ds) = Some ds"
  by (induction ds) simp_all

lemma categoryOfLabel_categoryValue: "categoryOfLabel (categoryValue c) = Some c"
  by (cases c)
    (simp_all add: categoryOfLabel_def label_RESEARCH_def label_ADMIN_def label_PERSONAL_def
      label_OTHER_def)

lemma jsonToTask_taskToJson: "jsonToTask (taskToJson t) = Some t"
  by (simp add: taskToJson_def field_def those_asNumber_JNum categoryOfLabel_categoryValue)

lemma jsonToTasks_tasksToJson: "jsonToTasks (tasksToJson tasks) = Some tasks"
proof -
  have "those (map jsonToTask (map taskToJson tasks)) = Some tasks"
    by (induction tasks) (simp_all add: jsonToTask_taskToJson)
  then show ?thesis by (simp add: tasksToJson_def)
qed

text \<open>
  Claim C9. For every collection, the text that the save effect stores parses back to
  the JSON value it was printed from, that value is read as the same list of tasks (the
  same records, so the same ids and field values, in the same order), and so loading
  what was saved gives the collection back, whatever the storage held and whatever the
  state was.
\<close>

theorem save_load_roundtrip:
  "JSON_parse (JSON_stringify (tasksToJson tasks)) = Inr (tasksToJson tasks)
   \<and> jsonToTasks (tasksToJson tasks) = Some tasks
   \<and> loadTasks JSON_parse (saveTasks JSON_stringify localStorage tasks) state = Tasks tasks"
  by (simp add: JSON_parse_stringify jsonToTasks_tasksToJson loadTasks_def saveTasks_def
      JSON_stringify_not_Nil)


lemma save_example:
  "saveTasks JSON_stringify Map.empty [task_a] STORAGE_KEY = Some
    (''[{'' @ [CHR 0x22] @ ''id'' @ [CHR 0x22] @ '':'' @ [CHR 0x22] @ ''a'' @ [CHR 0x22] @
         '','' @ [CHR 0x22] @ ''content'' @ [CHR 0x22] @ '':'' @ [CHR 0x22] @
         ''Submit report'' @ [CHR 0x22] @ '','' @ [CHR 0x22] @ ''remindTime'' @ [CHR 0x22] @
         '':'' @ [CHR 0x22] @ ''2025-01-01T09:00:00.000Z'' @ [CHR 0x22] @ '','' @ [CHR 0x22] @
         ''repeatDays'' @ [CHR 0x22] @ '':[],'' @ [CHR 0x22] @ ''category'' @ [CHR 0x22] @
         '':'' @ [CHR 0x22, CHR 0xE8, CHR 0xA1, CHR 0x8C, CHR 0xE6, CHR 0x94] @
         [CHR 0xBF, CHR 0x22] @ '','' @ [CHR 0x22] @ ''isActive'' @ [CHR 0x22] @ '':true,'' @
         [CHR 0x22] @ ''isCompleted'' @ [CHR 0x22] @ '':false,'' @ [CHR 0x22] @
         ''createdAt'' @ [CHR 0x22] @ '':1735700000000}]'')"
  by (simp add: saveTasks_def tasksToJson_def taskToJson_def task_a_def quoteJSONString_def
      escapeChar_def showInt_def showNat.simps digitChar_def label_ADMIN_def)

section \<open>The AI gateway: instances\<close>

lemma parse_examples:
  "JSON_parse ''oops'' = Inl SyntaxError"
  "JSON_parse ''null'' = Inr JNull"
  "JSON_parse researchResponse
     = Inr (JObj [(''category'', JStr label_RESEARCH)])"
  by code_simp+

theorem categorizeTask_total_witness:
  "fst (categorizeTask (\<lambda>r. Inl (ApiError ''offline'')) JSON_parse ''write report'')
     = Inr OTHER
   \<and> fst (categorizeTask (\<lambda>r. Inr \<lparr>response_text = Some ''oops''\<rparr>) JSON_parse
        ''write report'') = Inr OTHER
   \<and> fst (categorizeTask (\<lambda>r. Inr \<lparr>response_text = Some ''null''\<rparr>) JSON_parse
        ''write report'') = Inr OTHER
   \<and> fst (categorizeTask (\<lambda>r. Inr \<lparr>response_text = Some
        researchResponse\<rparr>)
        JSON_parse ''write report'') = Inr RESEARCH"
proof -
  note offline = categorizeTask_total [where generateContent = "\<lambda>r. Inl (ApiError ''offline'')"
      and parse = JSON_parse and s = "''write report''" and e = "ApiError ''offline''"]
  note garbled = categorizeTask_total
      [where generateContent = "\<lambda>r. Inr \<lparr>response_text = Some ''oops''\<rparr>"
      and parse = JSON_parse and s = "''write report''"
      and r = "\<lparr>response_text = Some ''oops''\<rparr>" and e' = SyntaxError]
  note null = categorizeTask_total
      [where generateContent = "\<lambda>r. Inr \<lparr>response_text = Some ''null''\<rparr>"
      and parse = JSON_parse and s = "''write report''"
      and r = "\<lparr>response_text = Some ''null''\<rparr>" and v = JNull]
  have 1: "fst (categorizeTask (\<lambda>r. Inl (ApiError ''offline'')) JSON_parse ''write report'')
     = Inr OTHER"
    using offline by simp
  have "JSON_parse (orElse (response_text \<lparr>response_text = Some ''oops''\<rparr>) ''{}'')
      = Inl SyntaxError"
    by (simp add: orElse_def parse_examples)
  then have 2: "fst (categorizeTask (\<lambda>r. Inr \<lparr>response_text = Some ''oops''\<rparr>) JSON_parse
        ''write report'') = Inr OTHER"
    using garbled by simp
  have "JSON_parse (orElse (response_text \<lparr>response_text = Some ''null''\<rparr>) ''{}'')
      = Inr JNull"
    by (simp add: orElse_def parse_examples)
  then have 3: "fst (categorizeTask (\<lambda>r. Inr \<lparr>response_text = Some ''null''\<rparr>) JSON_parse
        ''write report'') = Inr OTHER"
    using null by simp
  have 4: "fst (categorizeTask (\<lambda>r. Inr \<lparr>response_text = Some
        researchResponse\<rparr>)
        JSON_parse ''write report'') = Inr RESEARCH"
  proof -
    have "researchResponse \<noteq> []" by (simp add: researchResponse_def)
    then show ?thesis
      by (simp add: categorizeTask_def categorizeTask_try_def Let_def orElse_def
          parse_examples)
  qed
  show ?thesis using 1 2 3 4 by blast
qed

theorem getDailySummary_total_witness:
  "[task_a] \<noteq> []
   \<and> fst (getDailySummary (\<lambda>r. Inl (ApiError ''offline'')) (\<lambda>s. ''09:00'') [task_a])
       = Inr connectionFailed
   \<and> (\<exists>s. fst (getDailySummary (\<lambda>r. Inr \<lparr>response_text = None\<rparr>) (\<lambda>s. ''09:00'') [task_a])
       = Inr s \<and> s \<noteq> [])
   \<and> getDailySummary (\<lambda>r. Inl (ApiError ''offline'')) (\<lambda>s. ''09:00'') []
       = (Inr emptySummary, [])"
proof -
  note offline = getDailySummary_total [where generateContent = "\<lambda>r. Inl (ApiError ''offline'')"
      and fmt = "\<lambda>s. ''09:00''" and tasks = "[task_a]" and e = "ApiError ''offline''"]
  note silent = getDailySummary_total [where generateContent = "\<lambda>r. Inr \<lparr>response_text = None\<rparr>"
      and fmt = "\<lambda>s. ''09:00''" and tasks = "[task_a]"]
  have ne: "[task_a] \<noteq> []" by simp
  have 1: "fst (getDailySummary (\<lambda>r. Inl (ApiError ''offline'')) (\<lambda>s. ''09:00'') [task_a])
       = Inr connectionFailed"
    using offline ne by simp
  have 2: "\<exists>s. fst (getDailySummary (\<lambda>r. Inr \<lparr>response_text = None\<rparr>) (\<lambda>s. ''09:00'') [task_a])
       = Inr s \<and> s \<noteq> []"
    using silent ne by blast
  have 3: "getDailySummary (\<lambda>r. Inl (ApiError ''offline'')) (\<lambda>s. ''09:00'') []
       = (Inr emptySummary, [])"
    using offline by blast
  show ?thesis using ne 1 2 3 by blast
qed

end
